theory Spec2Isabelle
  imports Complex_Main
begin

section \<open>The CSNePS bridge client (python-bridge/csri\_client.py)\<close>

text \<open>
  The client is an asyncio class whose methods await a simulated server call, write to a
  logger, and read and write the single mutable field \<open>_connected\<close>. The embedding is a
  state-passing one: a method takes the world (the client object together with the trace
  of what has been done so far) and returns either a raised exception or a value, and the
  new world. What the awaited calls and the clocks do is not decided by the client, so it
  is a parameter of every method (\<open>env\<close>).
\<close>

subsection \<open>Exceptions\<close>

text \<open>
  A raised Python exception: a \<open>ValueError\<close>, any other instance of \<open>Exception\<close>, or
  an instance of \<open>BaseException\<close> that is not an \<open>Exception\<close> (task cancellation,
  \<open>KeyboardInterrupt\<close>; the package requires Python 3.8, where
  \<open>asyncio.CancelledError\<close> is one of these). Each carries its \<open>str(e)\<close>.
\<close>

datatype py_exc = ValueError string | OtherException string | NonException string

fun is_Exception :: "py_exc \<Rightarrow> bool" where
  "is_Exception (ValueError m) = True"
| "is_Exception (OtherException m) = True"
| "is_Exception (NonException m) = False"

fun str_exc :: "py_exc \<Rightarrow> string" where
  "str_exc (ValueError m) = m"
| "str_exc (OtherException m) = m"
| "str_exc (NonException m) = m"

subsection \<open>Strings of integers, slices, JSON\<close>

fun str_nat :: "nat \<Rightarrow> string" where
  "str_nat n =
     (if n < 10 then [''0123456789'' ! n]
      else str_nat (n div 10) @ [''0123456789'' ! (n mod 10)])"

declare str_nat.simps [simp del]

definition str_int :: "int \<Rightarrow> string" where
  "str_int i = (if i < 0 then ''-'' @ str_nat (nat (- i)) else str_nat (nat i))"

text \<open>Python's \<open>sub in s\<close> on strings.\<close>

fun has_substring :: "string \<Rightarrow> string \<Rightarrow> bool" where
  "has_substring [] sub = (sub = [])"
| "has_substring (c # cs) sub = (take (length sub) (c # cs) = sub \<or> has_substring cs sub)"

text \<open>Python's \<open>xs[:n]\<close> for an integer \<open>n\<close>; a negative \<open>n\<close> counts from the end.\<close>

definition slice_to :: "'a list \<Rightarrow> int \<Rightarrow> 'a list" where
  "slice_to xs n =
     (if 0 \<le> n then take (nat n) xs else take (nat (int (length xs) + n)) xs)"

text \<open>
  A JSON document; an object keeps its members in insertion order, as a Python dict does.
  A float is carried as the decimal it is written as: the client never computes with one.
\<close>

datatype json =
    JString string
  | JInt int
  | JFloat real
  | JArray "json list"
  | JObject "(string \<times> json) list"

text \<open>
  The text that \<open>json.dumps\<close> produces is modelled by the document it encodes, so that
  \<open>json.loads\<close> gives the document back; the literal \<open>"{}"\<close> is the empty object.
\<close>

datatype json_text = Json_text (json_loads: json)

definition json_dumps :: "json \<Rightarrow> json_text" where
  "json_dumps j = Json_text j"

fun json_get :: "json \<Rightarrow> string \<Rightarrow> json option" where
  "json_get (JObject kvs) k = map_of kvs k"
| "json_get (JString s) k = None"
| "json_get (JInt i) k = None"
| "json_get (JFloat f) k = None"
| "json_get (JArray js) k = None"

subsection \<open>The dataclasses\<close>

text \<open>
  Field names are those of the source, prefixed by the initials of the class where two
  classes share a name. A \<open>datetime\<close> is a point on a discrete clock.
\<close>

type_synonym datetime = nat

record LoopClosure =
  lc_landmark_id :: string
  lc_score :: real
  lc_method :: string
  lc_pose_estimate :: "real list"
  lc_timestamp :: "datetime option"

record AppearanceMatch =
  am_landmark_id :: string
  am_consistency :: string
  am_score :: real
  am_timestamp :: "datetime option"

record GNCEvent =
  event_type :: string
  mode :: string
  severity :: real
  parameters :: "(string \<times> real) list"
  gnc_timestamp :: "datetime option"

record MedicalFinding =
  patient_id :: string
  finding_type :: string
  mf_confidence :: real
  location :: string
  size_mm :: real
  modality :: string
  mf_timestamp :: "datetime option"

text \<open>\<open>__post_init__\<close> of the four observation classes: a missing timestamp becomes
  \<open>datetime.now()\<close>, here the reading \<open>now\<close>.\<close>

definition post_init_timestamp :: "datetime \<Rightarrow> datetime option \<Rightarrow> datetime option" where
  "post_init_timestamp now ts = (case ts of None \<Rightarrow> Some now | Some t \<Rightarrow> Some t)"

definition mk_LoopClosure ::
  "datetime \<Rightarrow> string \<Rightarrow> real \<Rightarrow> string \<Rightarrow> real list \<Rightarrow> datetime option \<Rightarrow> LoopClosure" where
  "mk_LoopClosure now lid sc me pose ts =
     \<lparr>lc_landmark_id = lid, lc_score = sc, lc_method = me, lc_pose_estimate = pose,
      lc_timestamp = post_init_timestamp now ts\<rparr>"

definition mk_AppearanceMatch ::
  "datetime \<Rightarrow> string \<Rightarrow> string \<Rightarrow> real \<Rightarrow> datetime option \<Rightarrow> AppearanceMatch" where
  "mk_AppearanceMatch now lid co sc ts =
     \<lparr>am_landmark_id = lid, am_consistency = co, am_score = sc,
      am_timestamp = post_init_timestamp now ts\<rparr>"

definition mk_GNCEvent ::
  "datetime \<Rightarrow> string \<Rightarrow> string \<Rightarrow> real \<Rightarrow> (string \<times> real) list \<Rightarrow> datetime option \<Rightarrow> GNCEvent" where
  "mk_GNCEvent now et mo sev ps ts =
     \<lparr>event_type = et, mode = mo, severity = sev, parameters = ps,
      gnc_timestamp = post_init_timestamp now ts\<rparr>"

definition mk_MedicalFinding ::
  "datetime \<Rightarrow> string \<Rightarrow> string \<Rightarrow> real \<Rightarrow> string \<Rightarrow> real \<Rightarrow> string \<Rightarrow> datetime option
     \<Rightarrow> MedicalFinding" where
  "mk_MedicalFinding now pid ft co loc sz mo ts =
     \<lparr>patient_id = pid, finding_type = ft, mf_confidence = co, location = loc,
      size_mm = sz, modality = mo, mf_timestamp = post_init_timestamp now ts\<rparr>"

text \<open>
  \<open>ObservationResponse\<close>. The class declares \<open>triggered_rules: List[str] = None\<close>, so
  the field can hold \<open>None\<close> until \<open>__post_init__\<close> has run; the constructor below is
  \<open>__init__\<close> followed by \<open>__post_init__\<close>.
\<close>

record ObservationResponse =
  success :: bool
  message :: string
  observation_id :: "string option"
  triggered_rules :: "string list option"

definition mk_ObservationResponse ::
  "bool \<Rightarrow> string \<Rightarrow> string option \<Rightarrow> string list option \<Rightarrow> ObservationResponse" where
  "mk_ObservationResponse s m oid rules =
     \<lparr>success = s, message = m, observation_id = oid,
      triggered_rules = (case rules of None \<Rightarrow> Some [] | Some rs \<Rightarrow> Some rs)\<rparr>"

record BeliefInfo =
  bi_belief_id :: string
  belief_type :: string
  content :: json_text
  bi_confidence :: real
  created_at :: datetime

record BeliefQuery =
  concept :: string
  limit :: int
  include_justification :: bool

record BeliefResponse =
  beliefs :: "BeliefInfo list"
  br_success :: bool
  br_message :: string

record JustificationQuery =
  belief_id :: string
  max_depth :: int

record JustificationResponse =
  justification_tree :: json_text
  jr_success :: bool
  jr_message :: string

subsection \<open>The client object, the trace and the environment\<close>

text \<open>\<open>CSNeRSClient.__init__\<close>; the channel and the two stubs are never assigned in this
  version and stay \<open>None\<close>.\<close>

record CSNeRSClient =
  host :: string
  port :: int
  address :: string
  connected :: bool
  channel :: "unit option"
  observation_stub :: "unit option"
  query_stub :: "unit option"

definition init_CSNeRSClient :: "string \<Rightarrow> int \<Rightarrow> CSNeRSClient" where
  "init_CSNeRSClient h p =
     \<lparr>host = h, port = p, address = h @ '':'' @ str_int p, connected = False,
      channel = None, observation_stub = None, query_stub = None\<rparr>"

text \<open>
  What a call does besides returning: \<open>Call_connect\<close> marks an invocation of
  \<open>connect\<close>, \<open>Sleep ms\<close> an awaited \<open>asyncio.sleep\<close> (the stand-in for the round trip
  to the server) of that many milliseconds, \<open>Log\<close> a logger record.
\<close>

datatype level = INFO | ERROR

datatype event = Call_connect | Sleep nat | Log level string

record world =
  client :: CSNeRSClient
  trace :: "event list"

text \<open>
  The environment of one method call: whether the awaited connection step and the awaited
  request step return (\<open>None\<close>) or raise, the value of \<open>int(time.time() * 1000)\<close>, and the
  successive readings of \<open>datetime.now()\<close>.
\<close>

record env =
  connect_io :: "py_exc option"
  request_io :: "py_exc option"
  time_ms :: int
  clock :: "nat \<Rightarrow> datetime"

subsection \<open>Sequencing, raising and \<open>try ... except Exception\<close>\<close>

type_synonym 'a io = "world \<Rightarrow> (py_exc + 'a) \<times> world"

definition return_io :: "'a \<Rightarrow> 'a io" where
  "return_io v w = (Inr v, w)"

definition raise_io :: "py_exc \<Rightarrow> 'a io" where
  "raise_io e w = (Inl e, w)"

definition bind_io :: "'a io \<Rightarrow> ('a \<Rightarrow> 'b io) \<Rightarrow> 'b io" where
  "bind_io m f w = (case m w of (Inl e, w') \<Rightarrow> (Inl e, w') | (Inr v, w') \<Rightarrow> f v w')"

text \<open>\<open>except Exception as e\<close> handles the instances of \<open>Exception\<close> only; anything else
  that the body raises goes on to the caller.\<close>

definition try_except_Exception :: "'a io \<Rightarrow> (py_exc \<Rightarrow> 'a io) \<Rightarrow> 'a io" where
  "try_except_Exception body handler w =
     (case body w of
        (Inr v, w') \<Rightarrow> (Inr v, w')
      | (Inl e, w') \<Rightarrow> if is_Exception e then handler e w' else (Inl e, w'))"

definition emit :: "event \<Rightarrow> unit io" where
  "emit ev w = (Inr (), w\<lparr>trace := trace w @ [ev]\<rparr>)"

definition logger_info :: "string \<Rightarrow> unit io" where
  "logger_info msg = emit (Log INFO msg)"

definition logger_error :: "string \<Rightarrow> unit io" where
  "logger_error msg = emit (Log ERROR msg)"

definition asyncio_sleep :: "py_exc option \<Rightarrow> nat \<Rightarrow> unit io" where
  "asyncio_sleep outcome ms =
     bind_io (emit (Sleep ms))
       (\<lambda>_. case outcome of None \<Rightarrow> return_io () | Some e \<Rightarrow> raise_io e)"

definition set_connected :: "bool \<Rightarrow> unit io" where
  "set_connected b w = (Inr (), w\<lparr>client := (client w)\<lparr>connected := b\<rparr>\<rparr>)"

definition get_self :: "CSNeRSClient io" where
  "get_self w = (Inr (client w), w)"

subsection \<open>Connection lifecycle\<close>

definition connect :: "env \<Rightarrow> bool io" where
  "connect env =
     bind_io (emit Call_connect) (\<lambda>_.
     try_except_Exception
       (bind_io get_self (\<lambda>self.
        bind_io (logger_info (''Connecting to CSNePS server at '' @ address self)) (\<lambda>_.
        bind_io (asyncio_sleep (connect_io env) 100) (\<lambda>_.
        bind_io (set_connected True) (\<lambda>_.
        bind_io (logger_info ''Connected to CSNePS server successfully'') (\<lambda>_.
        return_io True))))))
       (\<lambda>e.
        bind_io (logger_error (''Failed to connect to CSNePS server: '' @ str_exc e)) (\<lambda>_.
        bind_io (set_connected False) (\<lambda>_.
        return_io False))))"

definition disconnect :: "unit io" where
  "disconnect =
     bind_io get_self (\<lambda>self.
     bind_io (if channel self \<noteq> None then logger_info ''Disconnecting from CSNePS server''
              else return_io ()) (\<lambda>_.
     bind_io (set_connected False) (\<lambda>_.
     logger_info ''Disconnected from CSNePS server'')))"

definition is_connected :: "world \<Rightarrow> bool" where
  "is_connected w = connected (client w)"

text \<open>The opening of every request method:
  \<open>if not self._connected: if not await self.connect(): return not_connected\<close>,
  followed by the rest of the method.\<close>

definition ensure_connected :: "env \<Rightarrow> 'a \<Rightarrow> 'a io \<Rightarrow> 'a io" where
  "ensure_connected env not_connected rest =
     bind_io get_self (\<lambda>self.
       if \<not> connected self then
         bind_io (connect env) (\<lambda>ok. if \<not> ok then return_io not_connected else rest)
       else rest)"

subsection \<open>Submitting observations\<close>

definition send_loop_closure :: "env \<Rightarrow> LoopClosure \<Rightarrow> ObservationResponse io" where
  "send_loop_closure env observation =
     ensure_connected env
       (mk_ObservationResponse False ''Not connected to CSNePS server'' None None)
       (try_except_Exception
          (bind_io (logger_info (''Sending loop closure observation: ''
                                  @ lc_landmark_id observation)) (\<lambda>_.
           bind_io (asyncio_sleep (request_io env) 50) (\<lambda>_.
           let oid = ''obs_'' @ str_int (time_ms env);
               response = mk_ObservationResponse True ''Loop closure processed successfully''
                            (Some oid) (Some [''slam-rule-1'', ''slam-rule-2''])
           in bind_io (logger_info (''Loop closure observation processed: '' @ oid)) (\<lambda>_.
              return_io response))))
          (\<lambda>e.
           bind_io (logger_error (''Failed to send loop closure observation: ''
                                   @ str_exc e)) (\<lambda>_.
           return_io (mk_ObservationResponse False
                        (''Error sending observation: '' @ str_exc e) None None))))"

definition send_appearance_match :: "env \<Rightarrow> AppearanceMatch \<Rightarrow> ObservationResponse io" where
  "send_appearance_match env observation =
     ensure_connected env
       (mk_ObservationResponse False ''Not connected to CSNePS server'' None None)
       (try_except_Exception
          (bind_io (logger_info (''Sending appearance match observation: ''
                                  @ am_landmark_id observation)) (\<lambda>_.
           bind_io (asyncio_sleep (request_io env) 50) (\<lambda>_.
           let oid = ''obs_'' @ str_int (time_ms env);
               response = mk_ObservationResponse True
                            ''Appearance match processed successfully''
                            (Some oid) (Some [''slam-rule-2'', ''slam-rule-3''])
           in bind_io (logger_info (''Appearance match observation processed: '' @ oid)) (\<lambda>_.
              return_io response))))
          (\<lambda>e.
           bind_io (logger_error (''Failed to send appearance match observation: ''
                                   @ str_exc e)) (\<lambda>_.
           return_io (mk_ObservationResponse False
                        (''Error sending observation: '' @ str_exc e) None None))))"

definition send_gnc_event :: "env \<Rightarrow> GNCEvent \<Rightarrow> ObservationResponse io" where
  "send_gnc_event env observation =
     ensure_connected env
       (mk_ObservationResponse False ''Not connected to CSNePS server'' None None)
       (try_except_Exception
          (bind_io (logger_info (''Sending GNC event observation: ''
                                  @ event_type observation)) (\<lambda>_.
           bind_io (asyncio_sleep (request_io env) 50) (\<lambda>_.
           let oid = ''obs_'' @ str_int (time_ms env);
               response = mk_ObservationResponse True ''GNC event processed successfully''
                            (Some oid) (Some [''gnc-rule-1'', ''gnc-rule-2''])
           in bind_io (logger_info (''GNC event observation processed: '' @ oid)) (\<lambda>_.
              return_io response))))
          (\<lambda>e.
           bind_io (logger_error (''Failed to send GNC event observation: ''
                                   @ str_exc e)) (\<lambda>_.
           return_io (mk_ObservationResponse False
                        (''Error sending observation: '' @ str_exc e) None None))))"

definition send_medical_finding :: "env \<Rightarrow> MedicalFinding \<Rightarrow> ObservationResponse io" where
  "send_medical_finding env observation =
     ensure_connected env
       (mk_ObservationResponse False ''Not connected to CSNePS server'' None None)
       (try_except_Exception
          (bind_io (logger_info (''Sending medical finding observation: ''
                                  @ finding_type observation)) (\<lambda>_.
           bind_io (asyncio_sleep (request_io env) 50) (\<lambda>_.
           let oid = ''obs_'' @ str_int (time_ms env);
               response = mk_ObservationResponse True
                            ''Medical finding processed successfully''
                            (Some oid) (Some [''medical-rule-1'', ''medical-rule-3''])
           in bind_io (logger_info (''Medical finding observation processed: '' @ oid)) (\<lambda>_.
              return_io response))))
          (\<lambda>e.
           bind_io (logger_error (''Failed to send medical finding observation: ''
                                   @ str_exc e)) (\<lambda>_.
           return_io (mk_ObservationResponse False
                        (''Error sending observation: '' @ str_exc e) None None))))"

subsection \<open>Querying beliefs\<close>

text \<open>The canned beliefs of \<open>query_beliefs\<close>, chosen by the concept of the query; the
  \<open>k\<close>-th \<open>datetime.now()\<close> of the call reads \<open>clock env k\<close>.\<close>

definition mock_beliefs :: "env \<Rightarrow> string \<Rightarrow> BeliefInfo list" where
  "mock_beliefs env c =
     (if c = ''HighConfidenceLandmark'' then
        [\<lparr>bi_belief_id = ''landmark-1'', belief_type = ''HighConfidenceLandmark'',
          content = json_dumps (JObject [(''landmark_id'', JString ''L001''),
                                         (''confidence'', JFloat 0.85)]),
          bi_confidence = 0.85, created_at = clock env 0\<rparr>,
         \<lparr>bi_belief_id = ''landmark-2'', belief_type = ''HighConfidenceLandmark'',
          content = json_dumps (JObject [(''landmark_id'', JString ''L002''),
                                         (''confidence'', JFloat 0.91)]),
          bi_confidence = 0.91, created_at = clock env 1\<rparr>]
      else if c = ''Hypothesis'' then
        [\<lparr>bi_belief_id = ''hypothesis-1'', belief_type = ''Hypothesis'',
          content = json_dumps (JObject [(''event_type'', JString ''thruster_anomaly''),
                                         (''hypothesis'', JString ''performance_degradation'')]),
          bi_confidence = 0.72, created_at = clock env 0\<rparr>]
      else if c = ''Recommendation'' then
        [\<lparr>bi_belief_id = ''recommendation-1'', belief_type = ''Recommendation'',
          content = json_dumps (JObject [(''finding_type'', JString ''lesion''),
                                         (''action'', JString ''biopsy''),
                                         (''priority'', JString ''urgent'')]),
          bi_confidence = 0.91, created_at = clock env 0\<rparr>]
      else [])"

definition query_beliefs :: "env \<Rightarrow> BeliefQuery \<Rightarrow> BeliefResponse io" where
  "query_beliefs env query =
     ensure_connected env
       \<lparr>beliefs = [], br_success = False, br_message = ''Not connected to CSNePS server''\<rparr>
       (try_except_Exception
          (bind_io (logger_info (''Querying beliefs for concept: '' @ concept query)) (\<lambda>_.
           bind_io (asyncio_sleep (request_io env) 100) (\<lambda>_.
           let response = \<lparr>beliefs = slice_to (mock_beliefs env (concept query)) (limit query),
                           br_success = True, br_message = ''Query executed successfully''\<rparr>
           in bind_io (logger_info (''Query returned ''
                                    @ str_int (int (length (beliefs response)))
                                    @ '' beliefs'')) (\<lambda>_.
              return_io response))))
          (\<lambda>e.
           bind_io (logger_error (''Failed to query beliefs: '' @ str_exc e)) (\<lambda>_.
           return_io \<lparr>beliefs = [], br_success = False,
                      br_message = ''Error querying beliefs: '' @ str_exc e\<rparr>)))"

subsection \<open>Justifications\<close>

definition justification :: "JustificationQuery \<Rightarrow> json" where
  "justification query =
     JObject [(''belief_id'', JString (belief_id query)),
              (''rule_path'', JArray [JString ''observation'', JString ''rule-1'',
                                      JString ''conclusion'']),
              (''premises'', JArray [JString ''loop-closure-score > 0.8'',
                                     JString ''consistent-appearance'']),
              (''confidence'', JFloat 0.85),
              (''depth'', JInt 2)]"

definition get_justification :: "env \<Rightarrow> JustificationQuery \<Rightarrow> JustificationResponse io" where
  "get_justification env query =
     ensure_connected env
       \<lparr>justification_tree = Json_text (JObject []), jr_success = False,
        jr_message = ''Not connected to CSNePS server''\<rparr>
       (try_except_Exception
          (bind_io (logger_info (''Getting justification for belief: '' @ belief_id query)) (\<lambda>_.
           bind_io (asyncio_sleep (request_io env) 50) (\<lambda>_.
           let response = \<lparr>justification_tree = json_dumps (justification query),
                           jr_success = True,
                           jr_message = ''Justification retrieved successfully''\<rparr>
           in bind_io (logger_info (''Justification retrieved for belief: ''
                                    @ belief_id query)) (\<lambda>_.
              return_io response))))
          (\<lambda>e.
           bind_io (logger_error (''Failed to get justification: '' @ str_exc e)) (\<lambda>_.
           return_io \<lparr>justification_tree = Json_text (JObject []), jr_success = False,
                      jr_message = ''Error getting justification: '' @ str_exc e\<rparr>)))"

subsection \<open>Dispatch on the type of the observation\<close>

text \<open>
  \<open>send_observation\<close> tests its argument with \<open>isinstance\<close>, so it accepts any Python
  object: one of the four observation classes, or an object of another type. The error
  message formats \<open>type(observation)\<close>, and what that prints depends on the kind of
  type: \<open><class 'name'>\<close> for an ordinary class (\<open>name\<close> qualified by its module
  unless it is a builtin, so \<open>str\<close> for a string), \<open><enum 'name'>\<close> for an
  \<open>Enum\<close> class such as \<open>ObservationType\<close>, and whatever its metaclass chooses
  for any other type.
\<close>

datatype py_type = Class string | Enum string | Other_type string

datatype py_object =
    A_LoopClosure LoopClosure
  | An_AppearanceMatch AppearanceMatch
  | A_GNCEvent GNCEvent
  | A_MedicalFinding MedicalFinding
  | Other_object py_type

fun repr_type :: "py_type \<Rightarrow> string" where
  "repr_type (Class name) = ''<class '' @ [CHR 0x27] @ name @ [CHR 0x27] @ ''>''"
| "repr_type (Enum name) = ''<enum '' @ [CHR 0x27] @ name @ [CHR 0x27] @ ''>''"
| "repr_type (Other_type text) = text"

fun send_observation :: "env \<Rightarrow> py_object \<Rightarrow> ObservationResponse io" where
  "send_observation env (A_LoopClosure observation) = send_loop_closure env observation"
| "send_observation env (An_AppearanceMatch observation) =
     send_appearance_match env observation"
| "send_observation env (A_GNCEvent observation) = send_gnc_event env observation"
| "send_observation env (A_MedicalFinding observation) =
     send_medical_finding env observation"
| "send_observation env (Other_object ty) =
     raise_io (ValueError (''Unsupported observation type: '' @ repr_type ty))"

subsection \<open>Sample inputs\<close>

text \<open>
  A client as \<open>CSNeRSClient()\<close> builds it, before and after a successful
  \<open>connect\<close>, observations as the test-suite builds them,
  and four environments: one where every awaited step returns, one where the connection
  step raises an error, one where the request step raises an error, and one where the
  task is cancelled during the request step.
\<close>

definition quiet_env :: env where
  "quiet_env =
     \<lparr>connect_io = None, request_io = None, time_ms = 1700000000000, clock = (\<lambda>k. k)\<rparr>"

definition refusing_env :: env where
  "refusing_env = quiet_env\<lparr>connect_io := Some (OtherException ''connection refused'')\<rparr>"

definition timeout_env :: env where
  "timeout_env = quiet_env\<lparr>request_io := Some (OtherException ''deadline exceeded'')\<rparr>"

definition cancelled_env :: env where
  "cancelled_env = quiet_env\<lparr>request_io := Some (NonException ''cancelled'')\<rparr>"

definition fresh_world :: world where
  "fresh_world = \<lparr>client = init_CSNeRSClient ''localhost'' 50051, trace = []\<rparr>"

definition connected_world :: world where
  "connected_world = fresh_world\<lparr>client := (client fresh_world)\<lparr>connected := True\<rparr>\<rparr>"

definition sample_loop_closure :: LoopClosure where
  "sample_loop_closure =
     mk_LoopClosure 0 ''L001'' 0.85 ''visual'' [10.5, 3.2, 0, 0, 0, 0, 1] None"

definition sample_appearance_match :: AppearanceMatch where
  "sample_appearance_match = mk_AppearanceMatch 0 ''L001'' ''consistent'' 0.92 None"

definition sample_gnc_event :: GNCEvent where
  "sample_gnc_event =
     mk_GNCEvent 0 ''thruster_anomaly'' ''burn'' 0.7 [(''thrust_deviation'', 0.15)] None"

definition sample_medical_finding :: MedicalFinding where
  "sample_medical_finding = mk_MedicalFinding 0 ''P001'' ''lesion'' 0.89 ''liver'' 12.5 ''CT'' None"

section \<open>Properties\<close>

lemmas io_defs = return_io_def raise_io_def bind_io_def try_except_Exception_def emit_def
  logger_info_def logger_error_def asyncio_sleep_def set_connected_def get_self_def
  ensure_connected_def

lemmas sample_defs = quiet_env_def refusing_env_def timeout_env_def cancelled_env_def
  fresh_world_def connected_world_def init_CSNeRSClient_def

lemma length_slice_to: "0 \<le> n \<Longrightarrow> int (length (slice_to xs n)) \<le> n"
  by (simp add: slice_to_def)

lemma slice_to_Nil: "slice_to [] n = []"
  by (simp add: slice_to_def)

lemma has_substring_self: "has_substring s s"
  by (cases s) simp_all

lemma has_substring_append: "has_substring (p @ s) s"
  by (induction p) (simp_all add: has_substring_self)

text \<open>What \<open>connect\<close> returns and what it leaves behind, by the outcome of its awaited
  step; and the opening of a request method, by the state it finds.\<close>

lemma connect_eq:
  "connect env w =
     (case connect_io env of
        None \<Rightarrow>
          (Inr True,
           \<lparr>client = (client w)\<lparr>connected := True\<rparr>,
            trace = trace w @ [Call_connect,
              Log INFO (''Connecting to CSNePS server at '' @ address (client w)), Sleep 100,
              Log INFO ''Connected to CSNePS server successfully'']\<rparr>)
      | Some e \<Rightarrow>
          if is_Exception e then
            (Inr False,
             \<lparr>client = (client w)\<lparr>connected := False\<rparr>,
              trace = trace w @ [Call_connect,
                Log INFO (''Connecting to CSNePS server at '' @ address (client w)), Sleep 100,
                Log ERROR (''Failed to connect to CSNePS server: '' @ str_exc e)]\<rparr>)
          else
            (Inl e,
             \<lparr>client = client w,
              trace = trace w @ [Call_connect,
                Log INFO (''Connecting to CSNePS server at '' @ address (client w)),
                Sleep 100]\<rparr>))"
  by (cases w) (simp add: connect_def io_defs split: option.splits)

lemma ensure_connected_eq:
  "ensure_connected env nc rest w =
     (if connected (client w) then rest w
      else case connect env w of
             (Inl e, w') \<Rightarrow> (Inl e, w')
           | (Inr ok, w') \<Rightarrow> if ok then rest w' else (Inr nc, w'))"
  by (simp add: ensure_connected_def get_self_def bind_io_def return_io_def
      split: prod.splits sum.splits)

lemmas run_defs = return_io_def raise_io_def bind_io_def try_except_Exception_def emit_def
  logger_info_def logger_error_def asyncio_sleep_def ensure_connected_eq connect_eq

lemmas send_defs = send_loop_closure_def send_appearance_match_def send_gnc_event_def
  send_medical_finding_def

lemmas request_defs = send_defs query_beliefs_def get_justification_def

lemmas body_defs = return_io_def raise_io_def bind_io_def try_except_Exception_def emit_def
  logger_info_def logger_error_def asyncio_sleep_def

text \<open>Every \<open>connect\<close> is recorded once, at the head of what it appends to the trace; so
  a request method that finds the client disconnected records exactly one, provided the
  rest of the method records none.\<close>

lemma connect_trace:
  "\<exists>evs. trace (snd (connect env w)) = trace w @ Call_connect # evs
     \<and> Call_connect \<notin> set evs"
  by (simp add: connect_eq split: option.splits)

lemma ensure_connected_one_connect:
  assumes off: "\<not> connected (client w)"
    and rest: "\<And>w'. \<exists>evs. trace (snd (rest w')) = trace w' @ evs \<and> Call_connect \<notin> set evs"
  shows "\<exists>evs. trace (snd (ensure_connected env nc rest w)) = trace w @ Call_connect # evs
           \<and> Call_connect \<notin> set evs"
proof -
  obtain res w1 where c: "connect env w = (res, w1)"
    by (cases "connect env w")
  from connect_trace [of env w] c obtain evs1 where
    t1: "trace w1 = trace w @ Call_connect # evs1" and n1: "Call_connect \<notin> set evs1"
    by auto
  show ?thesis
  proof (cases res)
    case (Inl e)
    with off c t1 n1 show ?thesis by (simp add: ensure_connected_eq)
  next
    case (Inr ok)
    show ?thesis
    proof (cases ok)
      case False
      with Inr off c t1 n1 show ?thesis by (simp add: ensure_connected_eq)
    next
      case True
      from rest [of w1] obtain evs2 where
        t2: "trace (snd (rest w1)) = trace w1 @ evs2" and n2: "Call_connect \<notin> set evs2"
        by blast
      from True Inr off c have "ensure_connected env nc rest w = rest w1"
        by (simp add: ensure_connected_eq)
      with t1 t2 n1 n2 show ?thesis by simp
    qed
  qed
qed

lemma ensure_connected_refused:
  "\<not> connected (client w) \<Longrightarrow> fst (connect env w) = Inr False
     \<Longrightarrow> fst (ensure_connected env nc rest w) = Inr nc"
  by (cases "connect env w") (simp add: ensure_connected_eq)

subsection \<open>Connection lifecycle\<close>

text \<open>
  C4, as the code has it. The claim has \<open>connect\<close> on a client that is already
  connected return success. \<open>connect\<close> does not look at the flag: it runs the
  connection step again, and when that step raises an error it returns \<open>False\<close> and
  clears the flag of a client that was connected.
\<close>

theorem connect_idempotent_counterexample:
  "connected (client connected_world)
   \<and> fst (connect refusing_env connected_world) = Inr False
   \<and> \<not> is_connected (snd (connect refusing_env connected_world))"
  by (simp add: connect_eq is_connected_def sample_defs)

text \<open>
  C4, amended. \<open>connect\<close> has no already-connected guard: every call performs the
  connection step again (one more \<open>connect\<close> and one more awaited step in the trace),
  whatever the state of the client. It returns success (true) exactly when that step
  returns, and the client is then connected; so two consecutive \<open>connect\<close> calls
  that both succeed leave the client in the same connected state, a successful
  \<open>connect\<close> on a connected client leaves the client object as it found it, and no
  call creates a connection object (the channel is what it was). When the step raises an
  error, \<open>connect\<close> returns \<open>False\<close> and leaves the client disconnected, also when
  it was connected before.
\<close>

theorem connect_repeats_step:
  "(fst (connect env w) = Inr True) = (connect_io env = None)
   \<and> (fst (connect env w) = Inr True \<longrightarrow> is_connected (snd (connect env w)))
   \<and> (fst (connect env1 w) = Inr True \<and> fst (connect env2 (snd (connect env1 w))) = Inr True
        \<longrightarrow> is_connected (snd (connect env2 (snd (connect env1 w))))
          \<and> client (snd (connect env2 (snd (connect env1 w)))) = client (snd (connect env1 w)))
   \<and> (connected (client w) \<and> fst (connect env w) = Inr True
        \<longrightarrow> client (snd (connect env w)) = client w)
   \<and> (connect_io env = Some e \<and> is_Exception e
        \<longrightarrow> fst (connect env w) = Inr False \<and> \<not> is_connected (snd (connect env w)))
   \<and> channel (client (snd (connect env w))) = channel (client w)
   \<and> count_list (trace (snd (connect env w))) Call_connect
       = count_list (trace w) Call_connect + 1
   \<and> count_list (trace (snd (connect env w))) (Sleep 100)
       = count_list (trace w) (Sleep 100) + 1"
proof -
  have iff: "(fst (connect env' w') = Inr True) = (connect_io env' = None)" for env' w'
    by (simp add: connect_eq split: option.splits)
  have on: "is_connected (snd (connect env' w'))
      \<and> client (snd (connect env' w')) = (client w')\<lparr>connected := True\<rparr>"
    if "fst (connect env' w') = Inr True" for env' w'
  proof -
    from that iff [of env' w'] have "connect_io env' = None" by simp
    then show ?thesis by (simp add: connect_eq is_connected_def)
  qed
  have twice: "is_connected (snd (connect env2 (snd (connect env1 w))))
      \<and> client (snd (connect env2 (snd (connect env1 w)))) = client (snd (connect env1 w))"
    if "fst (connect env1 w) = Inr True \<and> fst (connect env2 (snd (connect env1 w))) = Inr True"
  proof -
    from that on [of env1 w] on [of env2 "snd (connect env1 w)"]
    show ?thesis by simp
  qed
  have unchanged: "client (snd (connect env w)) = client w"
    if "connected (client w) \<and> fst (connect env w) = Inr True"
    using that on [of env w] by simp
  have failed: "fst (connect env w) = Inr False \<and> \<not> is_connected (snd (connect env w))"
    if "connect_io env = Some e \<and> is_Exception e"
    using that by (simp add: connect_eq is_connected_def)
  have chan: "channel (client (snd (connect env w))) = channel (client w)"
    by (simp add: connect_eq split: option.splits)
  have calls: "count_list (trace (snd (connect env w))) Call_connect
      = count_list (trace w) Call_connect + 1"
    by (simp add: connect_eq split: option.splits)
  have sleeps: "count_list (trace (snd (connect env w))) (Sleep 100)
      = count_list (trace w) (Sleep 100) + 1"
    by (simp add: connect_eq split: option.splits)
  from iff [of env w] on [of env w] twice unchanged failed chan calls sleeps
  show ?thesis by blast
qed

text \<open>On a fresh client two \<open>connect\<close> calls in a quiet environment both succeed and
  agree on the client, having run the connection step twice; on a connected client a quiet
  \<open>connect\<close> changes nothing in the client object and a refused one disconnects it.\<close>

theorem connect_repeats_step_witness:
  "connect_io quiet_env = None
   \<and> fst (connect quiet_env fresh_world) = Inr True
   \<and> is_connected (snd (connect quiet_env fresh_world))
   \<and> fst (connect quiet_env (snd (connect quiet_env fresh_world))) = Inr True
   \<and> is_connected (snd (connect quiet_env (snd (connect quiet_env fresh_world))))
   \<and> client (snd (connect quiet_env (snd (connect quiet_env fresh_world))))
       = client (snd (connect quiet_env fresh_world))
   \<and> count_list (trace (snd (connect quiet_env (snd (connect quiet_env fresh_world)))))
        Call_connect = 2
   \<and> count_list (trace (snd (connect quiet_env (snd (connect quiet_env fresh_world)))))
        (Sleep 100) = 2
   \<and> connected (client connected_world)
   \<and> fst (connect quiet_env connected_world) = Inr True
   \<and> client (snd (connect quiet_env connected_world)) = client connected_world
   \<and> connect_io refusing_env = Some (OtherException ''connection refused'')
   \<and> is_Exception (OtherException ''connection refused'')
   \<and> fst (connect refusing_env connected_world) = Inr False
   \<and> \<not> is_connected (snd (connect refusing_env connected_world))"
proof -
  let ?w1 = "snd (connect quiet_env fresh_world)"
  let ?e = "OtherException ''connection refused''"
  have q: "connect_io quiet_env = None" by (simp add: quiet_env_def)
  have k: "connected (client connected_world)" by (simp add: sample_defs)
  have r: "connect_io refusing_env = Some ?e \<and> is_Exception ?e"
    by (simp add: sample_defs)
  have t: "trace fresh_world = []" by (simp add: sample_defs)
  note a = connect_repeats_step [of quiet_env fresh_world quiet_env quiet_env]
  note b = connect_repeats_step [of quiet_env ?w1]
  note c = connect_repeats_step [of quiet_env connected_world]
  note d = connect_repeats_step [of refusing_env connected_world _ _ ?e]
  from a q have first: "fst (connect quiet_env fresh_world) = Inr True" by blast
  from b q have second: "fst (connect quiet_env ?w1) = Inr True" by blast
  from a first have on1: "is_connected ?w1" by blast
  from a first second have same: "is_connected (snd (connect quiet_env ?w1))
      \<and> client (snd (connect quiet_env ?w1)) = client ?w1"
    by blast
  from a t have n1: "count_list (trace ?w1) Call_connect = 1"
    and s1: "count_list (trace ?w1) (Sleep 100) = 1"
    by simp_all
  from b n1 s1 have two: "count_list (trace (snd (connect quiet_env ?w1))) Call_connect = 2"
      "count_list (trace (snd (connect quiet_env ?w1))) (Sleep 100) = 2"
    by simp_all
  from c q have third: "fst (connect quiet_env connected_world) = Inr True" by blast
  with c k have keep: "client (snd (connect quiet_env connected_world)) = client connected_world"
    by blast
  from d r have refused: "fst (connect refusing_env connected_world) = Inr False
      \<and> \<not> is_connected (snd (connect refusing_env connected_world))"
    by blast
  from q first on1 second same two k third keep r refused show ?thesis by blast
qed

text \<open>
  C10. No submit, query or justification operation disconnects the client. A client that
  is connected before one of the six request methods is connected after it, whatever the
  method returns or raises; a call that returns \<open>success = True\<close> leaves the client
  connected; and \<open>connect\<close> itself takes a connected client to a disconnected one only
  when it fails (returns \<open>False\<close>). The other place that clears the flag is
  \<open>disconnect\<close>.
\<close>

theorem requests_keep_connection:
  "(connected (client w) \<longrightarrow>
       connected (client (snd (send_loop_closure env lc w)))
     \<and> connected (client (snd (send_appearance_match env am w)))
     \<and> connected (client (snd (send_gnc_event env gnc w)))
     \<and> connected (client (snd (send_medical_finding env mf w)))
     \<and> connected (client (snd (query_beliefs env bq w)))
     \<and> connected (client (snd (get_justification env jq w))))
   \<and> (fst (send_loop_closure env lc w) = Inr r \<and> success r
        \<longrightarrow> is_connected (snd (send_loop_closure env lc w)))
   \<and> (fst (send_appearance_match env am w) = Inr r \<and> success r
        \<longrightarrow> is_connected (snd (send_appearance_match env am w)))
   \<and> (fst (send_gnc_event env gnc w) = Inr r \<and> success r
        \<longrightarrow> is_connected (snd (send_gnc_event env gnc w)))
   \<and> (fst (send_medical_finding env mf w) = Inr r \<and> success r
        \<longrightarrow> is_connected (snd (send_medical_finding env mf w)))
   \<and> (fst (query_beliefs env bq w) = Inr br \<and> br_success br
        \<longrightarrow> is_connected (snd (query_beliefs env bq w)))
   \<and> (fst (get_justification env jq w) = Inr jr \<and> jr_success jr
        \<longrightarrow> is_connected (snd (get_justification env jq w)))
   \<and> (connected (client w) \<and> \<not> is_connected (snd (connect env w))
        \<longrightarrow> fst (connect env w) = Inr False)
   \<and> \<not> is_connected (snd (disconnect w))"
proof -
  have keep: "connected (client (snd (send_loop_closure env lc w)))"
       "connected (client (snd (send_appearance_match env am w)))"
       "connected (client (snd (send_gnc_event env gnc w)))"
       "connected (client (snd (send_medical_finding env mf w)))"
       "connected (client (snd (query_beliefs env bq w)))"
       "connected (client (snd (get_justification env jq w)))"
    if "connected (client w)"
    using that by (auto simp: request_defs run_defs Let_def split: option.splits)
  have s1: "is_connected (snd (send_loop_closure env lc w))"
    if "fst (send_loop_closure env lc w) = Inr r \<and> success r"
    using that by (auto simp: send_loop_closure_def run_defs Let_def is_connected_def
        mk_ObservationResponse_def split: option.splits if_splits)
  have s2: "is_connected (snd (send_appearance_match env am w))"
    if "fst (send_appearance_match env am w) = Inr r \<and> success r"
    using that by (auto simp: send_appearance_match_def run_defs Let_def is_connected_def
        mk_ObservationResponse_def split: option.splits if_splits)
  have s3: "is_connected (snd (send_gnc_event env gnc w))"
    if "fst (send_gnc_event env gnc w) = Inr r \<and> success r"
    using that by (auto simp: send_gnc_event_def run_defs Let_def is_connected_def
        mk_ObservationResponse_def split: option.splits if_splits)
  have s4: "is_connected (snd (send_medical_finding env mf w))"
    if "fst (send_medical_finding env mf w) = Inr r \<and> success r"
    using that by (auto simp: send_medical_finding_def run_defs Let_def is_connected_def
        mk_ObservationResponse_def split: option.splits if_splits)
  have s5: "is_connected (snd (query_beliefs env bq w))"
    if "fst (query_beliefs env bq w) = Inr br \<and> br_success br"
    using that by (auto simp: query_beliefs_def run_defs Let_def is_connected_def
        split: option.splits if_splits)
  have s6: "is_connected (snd (get_justification env jq w))"
    if "fst (get_justification env jq w) = Inr jr \<and> jr_success jr"
    using that by (auto simp: get_justification_def run_defs Let_def is_connected_def
        split: option.splits if_splits)
  have c: "fst (connect env w) = Inr False"
    if "connected (client w) \<and> \<not> is_connected (snd (connect env w))"
    using that by (auto simp: connect_eq is_connected_def split: option.splits if_splits)
  have d: "\<not> is_connected (snd (disconnect w))"
    by (simp add: disconnect_def is_connected_def io_defs)
  from keep s1 s2 s3 s4 s5 s6 c d show ?thesis by blast
qed

text \<open>A connected client stays connected through requests that time out; a fresh client
  is connected after each of the six requests when it succeeds; and a connected client
  whose reconnection is refused ends up disconnected, \<open>connect\<close> having returned
  \<open>False\<close>.\<close>

theorem requests_keep_connection_witness:
  "connected (client connected_world)
   \<and> connected (client (snd (send_loop_closure timeout_env sample_loop_closure
        connected_world)))
   \<and> connected (client (snd (query_beliefs timeout_env
        \<lparr>concept = ''Hypothesis'', limit = 3, include_justification = False\<rparr>
        connected_world)))
   \<and> fst (send_loop_closure quiet_env sample_loop_closure fresh_world)
       = Inr (mk_ObservationResponse True ''Loop closure processed successfully''
                (Some (''obs_'' @ str_int (time_ms quiet_env)))
                (Some [''slam-rule-1'', ''slam-rule-2'']))
   \<and> is_connected (snd (send_loop_closure quiet_env sample_loop_closure fresh_world))
   \<and> fst (send_appearance_match quiet_env sample_appearance_match fresh_world)
       = Inr (mk_ObservationResponse True ''Appearance match processed successfully''
                (Some (''obs_'' @ str_int (time_ms quiet_env)))
                (Some [''slam-rule-2'', ''slam-rule-3'']))
   \<and> is_connected (snd (send_appearance_match quiet_env sample_appearance_match fresh_world))
   \<and> fst (send_gnc_event quiet_env sample_gnc_event fresh_world)
       = Inr (mk_ObservationResponse True ''GNC event processed successfully''
                (Some (''obs_'' @ str_int (time_ms quiet_env)))
                (Some [''gnc-rule-1'', ''gnc-rule-2'']))
   \<and> is_connected (snd (send_gnc_event quiet_env sample_gnc_event fresh_world))
   \<and> fst (send_medical_finding quiet_env sample_medical_finding fresh_world)
       = Inr (mk_ObservationResponse True ''Medical finding processed successfully''
                (Some (''obs_'' @ str_int (time_ms quiet_env)))
                (Some [''medical-rule-1'', ''medical-rule-3'']))
   \<and> is_connected (snd (send_medical_finding quiet_env sample_medical_finding fresh_world))
   \<and> fst (query_beliefs quiet_env
        \<lparr>concept = ''Landmark'', limit = 3, include_justification = False\<rparr> fresh_world)
       = Inr \<lparr>beliefs = [], br_success = True, br_message = ''Query executed successfully''\<rparr>
   \<and> is_connected (snd (query_beliefs quiet_env
        \<lparr>concept = ''Landmark'', limit = 3, include_justification = False\<rparr> fresh_world))
   \<and> fst (get_justification quiet_env \<lparr>belief_id = ''landmark-1'', max_depth = 5\<rparr> fresh_world)
       = Inr \<lparr>justification_tree =
                json_dumps (justification \<lparr>belief_id = ''landmark-1'', max_depth = 5\<rparr>),
              jr_success = True, jr_message = ''Justification retrieved successfully''\<rparr>
   \<and> is_connected (snd (get_justification quiet_env
        \<lparr>belief_id = ''landmark-1'', max_depth = 5\<rparr> fresh_world))
   \<and> \<not> is_connected (snd (connect refusing_env connected_world))
   \<and> fst (connect refusing_env connected_world) = Inr False"
proof -
  let ?oid = "Some (''obs_'' @ str_int (time_ms quiet_env))"
  let ?r1 = "mk_ObservationResponse True ''Loop closure processed successfully'' ?oid
               (Some [''slam-rule-1'', ''slam-rule-2''])"
  let ?r2 = "mk_ObservationResponse True ''Appearance match processed successfully'' ?oid
               (Some [''slam-rule-2'', ''slam-rule-3''])"
  let ?r3 = "mk_ObservationResponse True ''GNC event processed successfully'' ?oid
               (Some [''gnc-rule-1'', ''gnc-rule-2''])"
  let ?r4 = "mk_ObservationResponse True ''Medical finding processed successfully'' ?oid
               (Some [''medical-rule-1'', ''medical-rule-3''])"
  let ?bq = "\<lparr>concept = ''Hypothesis'', limit = 3, include_justification = False\<rparr>"
  let ?uq = "\<lparr>concept = ''Landmark'', limit = 3, include_justification = False\<rparr>"
  let ?br = "\<lparr>beliefs = [], br_success = True, br_message = ''Query executed successfully''\<rparr>"
  let ?jq = "\<lparr>belief_id = ''landmark-1'', max_depth = 5\<rparr>"
  let ?jr = "\<lparr>justification_tree = json_dumps (justification ?jq), jr_success = True,
              jr_message = ''Justification retrieved successfully''\<rparr>"
  have k: "connected (client connected_world)"
    by (simp add: sample_defs)
  have run1: "fst (send_loop_closure quiet_env sample_loop_closure fresh_world) = Inr ?r1
      \<and> success ?r1"
    by (simp add: send_loop_closure_def run_defs sample_defs Let_def mk_ObservationResponse_def)
  have run2: "fst (send_appearance_match quiet_env sample_appearance_match fresh_world)
      = Inr ?r2 \<and> success ?r2"
    by (simp add: send_appearance_match_def run_defs sample_defs Let_def
        mk_ObservationResponse_def)
  have run3: "fst (send_gnc_event quiet_env sample_gnc_event fresh_world) = Inr ?r3
      \<and> success ?r3"
    by (simp add: send_gnc_event_def run_defs sample_defs Let_def mk_ObservationResponse_def)
  have run4: "fst (send_medical_finding quiet_env sample_medical_finding fresh_world)
      = Inr ?r4 \<and> success ?r4"
    by (simp add: send_medical_finding_def run_defs sample_defs Let_def
        mk_ObservationResponse_def)
  have run5: "fst (query_beliefs quiet_env ?uq fresh_world) = Inr ?br \<and> br_success ?br"
    by (simp add: query_beliefs_def run_defs sample_defs mock_beliefs_def slice_to_Nil)
  have run6: "fst (get_justification quiet_env ?jq fresh_world) = Inr ?jr \<and> jr_success ?jr"
    by (simp add: get_justification_def run_defs sample_defs)
  have off: "\<not> is_connected (snd (connect refusing_env connected_world))"
    by (simp add: connect_eq is_connected_def sample_defs)
  note a = requests_keep_connection [of connected_world timeout_env sample_loop_closure
      sample_appearance_match sample_gnc_event sample_medical_finding ?bq ?jq,
      THEN conjunct1, rule_format, OF k]
  note b1 = requests_keep_connection [of fresh_world quiet_env sample_loop_closure _ _ _ _ _ ?r1]
  note b2 = requests_keep_connection [of fresh_world quiet_env _ sample_appearance_match
      _ _ _ _ ?r2]
  note b3 = requests_keep_connection [of fresh_world quiet_env _ _ sample_gnc_event _ _ _ ?r3]
  note b4 = requests_keep_connection [of fresh_world quiet_env _ _ _ sample_medical_finding
      _ _ ?r4]
  note b5 = requests_keep_connection [of fresh_world quiet_env _ _ _ _ ?uq _ _ ?br]
  note b6 = requests_keep_connection [of fresh_world quiet_env _ _ _ _ _ ?jq _ _ ?jr]
  note c = requests_keep_connection [of connected_world refusing_env]
  from b1 run1 have on1:
    "is_connected (snd (send_loop_closure quiet_env sample_loop_closure fresh_world))"
    by blast
  from b2 run2 have on2:
    "is_connected (snd (send_appearance_match quiet_env sample_appearance_match fresh_world))"
    by blast
  from b3 run3 have on3:
    "is_connected (snd (send_gnc_event quiet_env sample_gnc_event fresh_world))"
    by blast
  from b4 run4 have on4:
    "is_connected (snd (send_medical_finding quiet_env sample_medical_finding fresh_world))"
    by blast
  from b5 run5 have on5: "is_connected (snd (query_beliefs quiet_env ?uq fresh_world))"
    by blast
  from b6 run6 have on6: "is_connected (snd (get_justification quiet_env ?jq fresh_world))"
    by blast
  from c k off have refused: "fst (connect refusing_env connected_world) = Inr False"
    by blast
  from a k run1 run2 run3 run4 run5 run6 on1 on2 on3 on4 on5 on6 off refused
  show ?thesis by blast
qed

subsection \<open>Submitting observations\<close>

text \<open>
  C2, as the code has it. The claim has every error end in a response whose message
  contains the stringified error, and no exception leave a send method. Two paths do
  otherwise. The handlers are \<open>except Exception\<close>: when the task is cancelled during the
  awaited request, the cancellation leaves \<open>send_loop_closure\<close>. And an error raised
  during the implicit \<open>connect\<close> is logged by \<open>connect\<close> and dropped: the response
  carries the fixed not-connected message, in which the text of the error does not occur.
\<close>

theorem send_errors_counterexample:
  "request_io cancelled_env = Some (NonException ''cancelled'')
   \<and> fst (send_loop_closure cancelled_env sample_loop_closure fresh_world)
       = Inl (NonException ''cancelled'')
   \<and> \<not> connected (client fresh_world)
   \<and> connect_io refusing_env = Some (OtherException ''connection refused'')
   \<and> fst (send_loop_closure refusing_env sample_loop_closure fresh_world)
       = Inr \<lparr>success = False, message = ''Not connected to CSNePS server'',
              observation_id = None, triggered_rules = Some []\<rparr>
   \<and> \<not> has_substring ''Not connected to CSNePS server''
          (str_exc (OtherException ''connection refused''))"
  by (simp add: send_loop_closure_def run_defs sample_defs mk_ObservationResponse_def)

text \<open>
  C2, amended. For every observation submitted through a typed send method: an error (an
  instance of \<open>Exception\<close>) raised while the request is sent, the client being connected
  or the implicit \<open>connect\<close> having gone through, is converted into a returned
  \<open>ObservationResponse\<close> with \<open>success = False\<close> and the message
  \<open>Error sending observation: \<close> followed by the stringified error, which it therefore
  contains; an error raised during the implicit \<open>connect\<close> is converted into a returned
  response with \<open>success = False\<close> and the fixed message
  \<open>Not connected to CSNePS server\<close>; no instance of \<open>Exception\<close> propagates past
  the method boundary. An exception that is not an \<open>Exception\<close> (the cancellation of
  the task, a keyboard interrupt) raised by either awaited step does propagate.
\<close>

theorem send_errors_reported:
  "(is_Exception e \<and> request_io env = Some e
      \<and> (connected (client w) \<or> connect_io env = None)
      \<longrightarrow> fst (send_loop_closure env lc w)
            = Inr (mk_ObservationResponse False
                     (''Error sending observation: '' @ str_exc e) None None)
        \<and> fst (send_appearance_match env am w)
            = Inr (mk_ObservationResponse False
                     (''Error sending observation: '' @ str_exc e) None None)
        \<and> fst (send_gnc_event env gnc w)
            = Inr (mk_ObservationResponse False
                     (''Error sending observation: '' @ str_exc e) None None)
        \<and> fst (send_medical_finding env mf w)
            = Inr (mk_ObservationResponse False
                     (''Error sending observation: '' @ str_exc e) None None)
        \<and> has_substring
              (message (mk_ObservationResponse False
                 (''Error sending observation: '' @ str_exc e) None None)) (str_exc e)
        \<and> \<not> success (mk_ObservationResponse False
                 (''Error sending observation: '' @ str_exc e) None None))
   \<and> (is_Exception e \<and> \<not> connected (client w) \<and> connect_io env = Some e
      \<longrightarrow> fst (send_loop_closure env lc w)
            = Inr (mk_ObservationResponse False ''Not connected to CSNePS server'' None None)
        \<and> fst (send_appearance_match env am w)
            = Inr (mk_ObservationResponse False ''Not connected to CSNePS server'' None None)
        \<and> fst (send_gnc_event env gnc w)
            = Inr (mk_ObservationResponse False ''Not connected to CSNePS server'' None None)
        \<and> fst (send_medical_finding env mf w)
            = Inr (mk_ObservationResponse False ''Not connected to CSNePS server'' None None)
        \<and> \<not> success (mk_ObservationResponse False ''Not connected to CSNePS server''
                 None None))
   \<and> (fst (send_loop_closure env lc w) = Inl x \<or> fst (send_appearance_match env am w) = Inl x
        \<or> fst (send_gnc_event env gnc w) = Inl x \<or> fst (send_medical_finding env mf w) = Inl x
      \<longrightarrow> \<not> is_Exception x)
   \<and> (\<not> is_Exception x
        \<and> (\<not> connected (client w) \<and> connect_io env = Some x
            \<or> (connected (client w) \<or> connect_io env = None) \<and> request_io env = Some x)
      \<longrightarrow> fst (send_loop_closure env lc w) = Inl x
        \<and> fst (send_appearance_match env am w) = Inl x
        \<and> fst (send_gnc_event env gnc w) = Inl x
        \<and> fst (send_medical_finding env mf w) = Inl x)"
proof -
  have sent: "fst (send_loop_closure env lc w)
        = Inr (mk_ObservationResponse False
                 (''Error sending observation: '' @ str_exc e) None None)
      \<and> fst (send_appearance_match env am w)
        = Inr (mk_ObservationResponse False
                 (''Error sending observation: '' @ str_exc e) None None)
      \<and> fst (send_gnc_event env gnc w)
        = Inr (mk_ObservationResponse False
                 (''Error sending observation: '' @ str_exc e) None None)
      \<and> fst (send_medical_finding env mf w)
        = Inr (mk_ObservationResponse False
                 (''Error sending observation: '' @ str_exc e) None None)"
    if "is_Exception e \<and> request_io env = Some e
      \<and> (connected (client w) \<or> connect_io env = None)"
    using that by (auto simp: send_defs run_defs)
  have msg: "message (mk_ObservationResponse s m oid rules) = m" for s m oid rules
    by (simp add: mk_ObservationResponse_def)
  have inside: "has_substring
      (message (mk_ObservationResponse False
         (''Error sending observation: '' @ str_exc e) None None)) (str_exc e)"
    by (simp only: msg has_substring_append)
  have failure: "\<not> success (mk_ObservationResponse False m None None)" for m
    by (simp add: mk_ObservationResponse_def)
  have refused: "fst (send_loop_closure env lc w)
        = Inr (mk_ObservationResponse False ''Not connected to CSNePS server'' None None)
      \<and> fst (send_appearance_match env am w)
        = Inr (mk_ObservationResponse False ''Not connected to CSNePS server'' None None)
      \<and> fst (send_gnc_event env gnc w)
        = Inr (mk_ObservationResponse False ''Not connected to CSNePS server'' None None)
      \<and> fst (send_medical_finding env mf w)
        = Inr (mk_ObservationResponse False ''Not connected to CSNePS server'' None None)"
    if "is_Exception e \<and> \<not> connected (client w) \<and> connect_io env = Some e"
    using that by (simp add: send_defs ensure_connected_eq connect_eq)
  have caught: "\<not> is_Exception x"
    if "fst (send_loop_closure env lc w) = Inl x
      \<or> fst (send_appearance_match env am w) = Inl x
      \<or> fst (send_gnc_event env gnc w) = Inl x \<or> fst (send_medical_finding env mf w) = Inl x"
    using that by (auto simp: send_defs run_defs Let_def split: option.splits if_splits)
  have through: "fst (send_loop_closure env lc w) = Inl x
      \<and> fst (send_appearance_match env am w) = Inl x
      \<and> fst (send_gnc_event env gnc w) = Inl x
      \<and> fst (send_medical_finding env mf w) = Inl x"
    if "\<not> is_Exception x
        \<and> (\<not> connected (client w) \<and> connect_io env = Some x
            \<or> (connected (client w) \<or> connect_io env = None) \<and> request_io env = Some x)"
    using that by (auto simp: send_defs run_defs)
  from sent inside failure refused caught through show ?thesis by blast
qed

text \<open>A deadline error during the request comes back from all four methods as a response
  that contains it; a refused connection comes back as the not-connected response; and a
  cancellation during the request leaves \<open>send_loop_closure\<close>, not being an
  \<open>Exception\<close>.\<close>

theorem send_errors_reported_witness:
  "is_Exception (OtherException ''deadline exceeded'')
   \<and> request_io timeout_env = Some (OtherException ''deadline exceeded'')
   \<and> connect_io timeout_env = None
   \<and> fst (send_loop_closure timeout_env sample_loop_closure fresh_world)
       = Inr \<lparr>success = False, message = ''Error sending observation: deadline exceeded'',
              observation_id = None, triggered_rules = Some []\<rparr>
   \<and> fst (send_appearance_match timeout_env sample_appearance_match fresh_world)
       = Inr \<lparr>success = False, message = ''Error sending observation: deadline exceeded'',
              observation_id = None, triggered_rules = Some []\<rparr>
   \<and> fst (send_gnc_event timeout_env sample_gnc_event fresh_world)
       = Inr \<lparr>success = False, message = ''Error sending observation: deadline exceeded'',
              observation_id = None, triggered_rules = Some []\<rparr>
   \<and> fst (send_medical_finding timeout_env sample_medical_finding fresh_world)
       = Inr \<lparr>success = False, message = ''Error sending observation: deadline exceeded'',
              observation_id = None, triggered_rules = Some []\<rparr>
   \<and> has_substring ''Error sending observation: deadline exceeded'' ''deadline exceeded''
   \<and> is_Exception (OtherException ''connection refused'')
   \<and> \<not> connected (client fresh_world)
   \<and> connect_io refusing_env = Some (OtherException ''connection refused'')
   \<and> fst (send_gnc_event refusing_env sample_gnc_event fresh_world)
       = Inr \<lparr>success = False, message = ''Not connected to CSNePS server'',
              observation_id = None, triggered_rules = Some []\<rparr>
   \<and> \<not> is_Exception (NonException ''cancelled'')
   \<and> request_io cancelled_env = Some (NonException ''cancelled'')
   \<and> connect_io cancelled_env = None
   \<and> fst (send_loop_closure cancelled_env sample_loop_closure fresh_world)
       = Inl (NonException ''cancelled'')
   \<and> fst (send_medical_finding cancelled_env sample_medical_finding fresh_world)
       = Inl (NonException ''cancelled'')"
proof -
  let ?e = "OtherException ''deadline exceeded''"
  let ?r = "OtherException ''connection refused''"
  let ?c = "NonException ''cancelled''"
  have h: "is_Exception ?e \<and> request_io timeout_env = Some ?e
           \<and> (connected (client fresh_world) \<or> connect_io timeout_env = None)"
    by (simp add: sample_defs)
  have n: "connect_io timeout_env = None" by (simp add: sample_defs)
  have hr: "is_Exception ?r \<and> \<not> connected (client fresh_world)
           \<and> connect_io refusing_env = Some ?r"
    by (simp add: sample_defs)
  have hc: "\<not> is_Exception ?c
        \<and> (\<not> connected (client fresh_world) \<and> connect_io cancelled_env = Some ?c
            \<or> (connected (client fresh_world) \<or> connect_io cancelled_env = None)
              \<and> request_io cancelled_env = Some ?c)"
    by (simp add: sample_defs)
  have nc: "request_io cancelled_env = Some ?c \<and> connect_io cancelled_env = None"
    by (simp add: sample_defs)
  note a = send_errors_reported [of ?e timeout_env fresh_world sample_loop_closure
      sample_appearance_match sample_gnc_event sample_medical_finding,
      THEN conjunct1, rule_format, OF h]
  note b = send_errors_reported [of ?r refusing_env fresh_world sample_loop_closure
      sample_appearance_match sample_gnc_event sample_medical_finding,
      THEN conjunct2, THEN conjunct1, rule_format, OF hr]
  note d = send_errors_reported [of _ cancelled_env fresh_world sample_loop_closure
      sample_appearance_match sample_gnc_event sample_medical_finding ?c,
      THEN conjunct2, THEN conjunct2, THEN conjunct2, rule_format, OF hc]
  from d have out: "fst (send_loop_closure cancelled_env sample_loop_closure fresh_world)
      = Inl ?c" by blast
  note c = send_errors_reported [of _ cancelled_env fresh_world sample_loop_closure _ _ _ ?c,
      THEN conjunct2, THEN conjunct2, THEN conjunct1, rule_format, OF disjI1, OF out]
  from a b c d h n hr nc show ?thesis by (simp add: mk_ObservationResponse_def)
qed

text \<open>
  C6. Every \<open>ObservationResponse\<close> that one of the four send methods returns carries an
  \<open>observation_id\<close> exactly when \<open>success\<close> is true, and its \<open>triggered_rules\<close> is a
  list (possibly empty), never \<open>None\<close>.
\<close>

theorem observation_response_invariant:
  "fst (send_loop_closure env lc w) = Inr r \<or> fst (send_appearance_match env am w) = Inr r
     \<or> fst (send_gnc_event env gnc w) = Inr r \<or> fst (send_medical_finding env mf w) = Inr r
   \<Longrightarrow> (observation_id r \<noteq> None) = success r \<and> triggered_rules r \<noteq> None"
  by (auto simp: send_defs run_defs Let_def mk_ObservationResponse_def
      split: option.splits if_splits)

text \<open>An accepted loop closure and a GNC event refused for want of a connection.\<close>

theorem observation_response_invariant_witness:
  "fst (send_loop_closure quiet_env sample_loop_closure fresh_world)
     = Inr \<lparr>success = True, message = ''Loop closure processed successfully'',
            observation_id = Some ''obs_1700000000000'',
            triggered_rules = Some [''slam-rule-1'', ''slam-rule-2'']\<rparr>
   \<and> fst (send_gnc_event refusing_env sample_gnc_event fresh_world)
     = Inr \<lparr>success = False, message = ''Not connected to CSNePS server'',
            observation_id = None, triggered_rules = Some []\<rparr>
   \<and> (observation_id \<lparr>success = False, message = ''Not connected to CSNePS server'',
            observation_id = None, triggered_rules = Some []\<rparr> \<noteq> None)
      = success \<lparr>success = False, message = ''Not connected to CSNePS server'',
            observation_id = None, triggered_rules = Some []\<rparr>
   \<and> (observation_id \<lparr>success = True, message = ''Loop closure processed successfully'',
            observation_id = Some ''obs_1700000000000'',
            triggered_rules = Some [''slam-rule-1'', ''slam-rule-2'']\<rparr> \<noteq> None)
      = success \<lparr>success = True, message = ''Loop closure processed successfully'',
            observation_id = Some ''obs_1700000000000'',
            triggered_rules = Some [''slam-rule-1'', ''slam-rule-2'']\<rparr>"
proof -
  have ok: "fst (send_loop_closure quiet_env sample_loop_closure fresh_world)
     = Inr \<lparr>success = True, message = ''Loop closure processed successfully'',
            observation_id = Some ''obs_1700000000000'',
            triggered_rules = Some [''slam-rule-1'', ''slam-rule-2'']\<rparr>"
    by (simp add: send_loop_closure_def run_defs sample_defs mk_ObservationResponse_def
        Let_def str_int_def str_nat.simps)
  have no: "fst (send_gnc_event refusing_env sample_gnc_event fresh_world)
     = Inr \<lparr>success = False, message = ''Not connected to CSNePS server'',
            observation_id = None, triggered_rules = Some []\<rparr>"
    by (simp add: send_gnc_event_def run_defs sample_defs mk_ObservationResponse_def)
  note a = observation_response_invariant [OF disjI1, OF ok]
  note b = observation_response_invariant [OF disjI2, OF disjI2, OF disjI1, OF no]
  from a b ok no show ?thesis by simp
qed

text \<open>
  C5, as the code has it. The claim gives the message of the acknowledgment after a failed
  auto-connect as \<open>not connected\<close>; the message the send methods return is
  \<open>Not connected to CSNePS server\<close>.
\<close>

theorem send_not_connected_message_counterexample:
  "\<not> connected (client fresh_world)
   \<and> fst (connect refusing_env fresh_world) = Inr False
   \<and> fst (send_loop_closure refusing_env sample_loop_closure fresh_world)
       = Inr \<lparr>success = False, message = ''Not connected to CSNePS server'',
              observation_id = None, triggered_rules = Some []\<rparr>
   \<and> message \<lparr>success = False, message = ''Not connected to CSNePS server'',
              observation_id = None, triggered_rules = Some []\<rparr> \<noteq> ''not connected''"
  by (simp add: send_loop_closure_def run_defs sample_defs mk_ObservationResponse_def)

text \<open>
  C5, amended. For every observation variant, submitting on a disconnected client first
  attempts exactly one implicit \<open>connect\<close> (the first thing the call does is a
  \<open>connect\<close>, and no other follows), and if that auto-connect fails the send method
  returns a response with \<open>success = False\<close> and the message
  \<open>Not connected to CSNePS server\<close>: a reported condition, not a raised one.
\<close>

theorem send_auto_connect:
  "\<not> connected (client w) \<Longrightarrow>
     (\<exists>rest. trace (snd (send_loop_closure env lc w)) = trace w @ Call_connect # rest
         \<and> Call_connect \<notin> set rest)
   \<and> (\<exists>rest. trace (snd (send_appearance_match env am w)) = trace w @ Call_connect # rest
         \<and> Call_connect \<notin> set rest)
   \<and> (\<exists>rest. trace (snd (send_gnc_event env gnc w)) = trace w @ Call_connect # rest
         \<and> Call_connect \<notin> set rest)
   \<and> (\<exists>rest. trace (snd (send_medical_finding env mf w)) = trace w @ Call_connect # rest
         \<and> Call_connect \<notin> set rest)
   \<and> (fst (connect env w) = Inr False \<longrightarrow>
         fst (send_loop_closure env lc w)
           = Inr (mk_ObservationResponse False ''Not connected to CSNePS server'' None None)
       \<and> fst (send_appearance_match env am w)
           = Inr (mk_ObservationResponse False ''Not connected to CSNePS server'' None None)
       \<and> fst (send_gnc_event env gnc w)
           = Inr (mk_ObservationResponse False ''Not connected to CSNePS server'' None None)
       \<and> fst (send_medical_finding env mf w)
           = Inr (mk_ObservationResponse False ''Not connected to CSNePS server'' None None))"
proof -
  assume off: "\<not> connected (client w)"
  have t1: "\<exists>rest. trace (snd (send_loop_closure env lc w)) = trace w @ Call_connect # rest
      \<and> Call_connect \<notin> set rest"
    unfolding send_loop_closure_def
    by (rule ensure_connected_one_connect [OF off])
      (simp add: body_defs Let_def split: option.splits)
  have t2: "\<exists>rest. trace (snd (send_appearance_match env am w)) = trace w @ Call_connect # rest
      \<and> Call_connect \<notin> set rest"
    unfolding send_appearance_match_def
    by (rule ensure_connected_one_connect [OF off])
      (simp add: body_defs Let_def split: option.splits)
  have t3: "\<exists>rest. trace (snd (send_gnc_event env gnc w)) = trace w @ Call_connect # rest
      \<and> Call_connect \<notin> set rest"
    unfolding send_gnc_event_def
    by (rule ensure_connected_one_connect [OF off])
      (simp add: body_defs Let_def split: option.splits)
  have t4: "\<exists>rest. trace (snd (send_medical_finding env mf w)) = trace w @ Call_connect # rest
      \<and> Call_connect \<notin> set rest"
    unfolding send_medical_finding_def
    by (rule ensure_connected_one_connect [OF off])
      (simp add: body_defs Let_def split: option.splits)
  have refused: "fst (send_loop_closure env lc w)
           = Inr (mk_ObservationResponse False ''Not connected to CSNePS server'' None None)
       \<and> fst (send_appearance_match env am w)
           = Inr (mk_ObservationResponse False ''Not connected to CSNePS server'' None None)
       \<and> fst (send_gnc_event env gnc w)
           = Inr (mk_ObservationResponse False ''Not connected to CSNePS server'' None None)
       \<and> fst (send_medical_finding env mf w)
           = Inr (mk_ObservationResponse False ''Not connected to CSNePS server'' None None)"
    if "fst (connect env w) = Inr False"
    unfolding send_defs using off that by (simp add: ensure_connected_refused)
  from t1 t2 t3 t4 refused show ?thesis by blast
qed

text \<open>On a fresh client, one \<open>connect\<close> is counted in the trace of a send whose
  auto-connect is refused and in the trace of a send that goes through.\<close>

theorem send_auto_connect_witness:
  "\<not> connected (client fresh_world)
   \<and> fst (connect refusing_env fresh_world) = Inr False
   \<and> fst (send_loop_closure refusing_env sample_loop_closure fresh_world)
       = Inr \<lparr>success = False, message = ''Not connected to CSNePS server'',
              observation_id = None, triggered_rules = Some []\<rparr>
   \<and> fst (send_medical_finding refusing_env sample_medical_finding fresh_world)
       = Inr \<lparr>success = False, message = ''Not connected to CSNePS server'',
              observation_id = None, triggered_rules = Some []\<rparr>
   \<and> count_list (trace (snd (send_loop_closure refusing_env sample_loop_closure fresh_world)))
        Call_connect = 1
   \<and> count_list (trace (snd (send_appearance_match quiet_env sample_appearance_match
        fresh_world))) Call_connect = 1"
proof -
  have d: "\<not> connected (client fresh_world)" by (simp add: sample_defs)
  have f: "fst (connect refusing_env fresh_world) = Inr False"
    by (simp add: connect_eq sample_defs)
  have t: "trace fresh_world = []" by (simp add: sample_defs)
  note a = send_auto_connect [OF d, of refusing_env sample_loop_closure
      sample_appearance_match sample_gnc_event sample_medical_finding]
  note b = send_auto_connect [OF d, of quiet_env sample_loop_closure
      sample_appearance_match sample_gnc_event sample_medical_finding]
  from a obtain r1 where
    "trace (snd (send_loop_closure refusing_env sample_loop_closure fresh_world))
       = trace fresh_world @ Call_connect # r1" "Call_connect \<notin> set r1"
    by blast
  then have c1: "count_list (trace (snd (send_loop_closure refusing_env sample_loop_closure
      fresh_world))) Call_connect = 1"
    by (simp add: t)
  from b obtain r2 where
    "trace (snd (send_appearance_match quiet_env sample_appearance_match fresh_world))
       = trace fresh_world @ Call_connect # r2" "Call_connect \<notin> set r2"
    by blast
  then have c2: "count_list (trace (snd (send_appearance_match quiet_env
      sample_appearance_match fresh_world))) Call_connect = 1"
    by (simp add: t)
  from a f have
    "fst (send_loop_closure refusing_env sample_loop_closure fresh_world)
       = Inr (mk_ObservationResponse False ''Not connected to CSNePS server'' None None)"
    "fst (send_medical_finding refusing_env sample_medical_finding fresh_world)
       = Inr (mk_ObservationResponse False ''Not connected to CSNePS server'' None None)"
    by blast+
  with d f c1 c2 show ?thesis by (simp add: mk_ObservationResponse_def)
qed

subsection \<open>Belief queries\<close>

text \<open>
  C1. For every belief query with \<open>limit = n\<close>, \<open>n \<ge> 1\<close>, the beliefs list of the
  response that \<open>query_beliefs\<close> returns has at most \<open>n\<close> entries. This holds on every
  path that returns: the canned list cut by \<open>[:limit]\<close>, and the empty list of the
  not-connected and the error responses.
\<close>

theorem query_beliefs_limit:
  "1 \<le> limit query \<Longrightarrow> fst (query_beliefs env query w) = Inr response
     \<Longrightarrow> int (length (beliefs response)) \<le> limit query"
  by (auto simp: query_beliefs_def connect_def io_defs length_slice_to
      split: option.splits if_splits)

text \<open>At \<open>limit = 1\<close> the two canned landmarks are cut to the first one.\<close>

theorem query_beliefs_limit_witness:
  "1 \<le> limit \<lparr>concept = ''HighConfidenceLandmark'', limit = 1, include_justification = False\<rparr>
   \<and> fst (query_beliefs quiet_env
        \<lparr>concept = ''HighConfidenceLandmark'', limit = 1, include_justification = False\<rparr>
        fresh_world)
     = Inr \<lparr>beliefs =
        [\<lparr>bi_belief_id = ''landmark-1'', belief_type = ''HighConfidenceLandmark'',
          content = json_dumps (JObject [(''landmark_id'', JString ''L001''),
                                         (''confidence'', JFloat 0.85)]),
          bi_confidence = 0.85, created_at = 0\<rparr>],
        br_success = True, br_message = ''Query executed successfully''\<rparr>
   \<and> int (length [\<lparr>bi_belief_id = ''landmark-1'', belief_type = ''HighConfidenceLandmark'',
          content = json_dumps (JObject [(''landmark_id'', JString ''L001''),
                                         (''confidence'', JFloat 0.85)]),
          bi_confidence = 0.85, created_at = 0::nat\<rparr>]) \<le> 1"
proof -
  let ?q = "\<lparr>concept = ''HighConfidenceLandmark'', limit = 1, include_justification = False\<rparr>"
  let ?r = "\<lparr>beliefs =
        [\<lparr>bi_belief_id = ''landmark-1'', belief_type = ''HighConfidenceLandmark'',
          content = json_dumps (JObject [(''landmark_id'', JString ''L001''),
                                         (''confidence'', JFloat 0.85)]),
          bi_confidence = 0.85, created_at = 0::nat\<rparr>],
        br_success = True, br_message = ''Query executed successfully''\<rparr>"
  have h: "1 \<le> limit ?q" by simp
  have run: "fst (query_beliefs quiet_env ?q fresh_world) = Inr ?r"
    by (simp add: query_beliefs_def connect_def io_defs sample_defs mock_beliefs_def
        slice_to_def)
  from query_beliefs_limit [OF h run] h run show ?thesis by simp
qed

text \<open>
  C9. For a query whose concept is none of \<open>HighConfidenceLandmark\<close>, \<open>Hypothesis\<close> and
  \<open>Recommendation\<close>, \<open>query_beliefs\<close> on a connected client whose awaited request
  returns answers \<open>success = True\<close> with an empty beliefs list, whatever the limit: an
  unknown concept is not reported as a failure.
\<close>

theorem unknown_concept_empty:
  "concept query \<notin> {''HighConfidenceLandmark'', ''Hypothesis'', ''Recommendation''}
   \<Longrightarrow> connected (client w) \<Longrightarrow> request_io env = None
   \<Longrightarrow> fst (query_beliefs env query w)
       = Inr \<lparr>beliefs = [], br_success = True, br_message = ''Query executed successfully''\<rparr>"
proof -
  assume unknown:
      "concept query \<notin> {''HighConfidenceLandmark'', ''Hypothesis'', ''Recommendation''}"
    and on: "connected (client w)" and returns: "request_io env = None"
  from unknown have none: "mock_beliefs env (concept query) = []"
    by (simp add: mock_beliefs_def)
  have cut: "slice_to ([] :: BeliefInfo list) (limit query) = []"
    by (rule slice_to_Nil)
  from on returns none cut show ?thesis
    by (simp add: query_beliefs_def run_defs)
qed

theorem unknown_concept_empty_witness:
  "concept \<lparr>concept = ''Landmark'', limit = 5, include_justification = False\<rparr>
     \<notin> {''HighConfidenceLandmark'', ''Hypothesis'', ''Recommendation''}
   \<and> connected (client connected_world)
   \<and> request_io quiet_env = None
   \<and> fst (query_beliefs quiet_env
        \<lparr>concept = ''Landmark'', limit = 5, include_justification = False\<rparr> connected_world)
       = Inr \<lparr>beliefs = [], br_success = True, br_message = ''Query executed successfully''\<rparr>"
proof -
  let ?q = "\<lparr>concept = ''Landmark'', limit = 5, include_justification = False\<rparr>"
  have c: "concept ?q \<notin> {''HighConfidenceLandmark'', ''Hypothesis'', ''Recommendation''}"
    by simp
  have k: "connected (client connected_world)" by (simp add: sample_defs)
  have q: "request_io quiet_env = None" by (simp add: quiet_env_def)
  from unknown_concept_empty [OF c k q] c k q show ?thesis by simp
qed

subsection \<open>Justifications\<close>



text \<open>
  C8, as the code has it. The claim bounds the declared depth of a successful
  justification by \<open>max_depth\<close>. The payload is canned: its \<open>depth\<close> member is the
  constant 2 and \<open>max_depth\<close> is never read, so a query with \<open>max_depth = 1\<close> that
  succeeds declares depth 2.
\<close>

theorem justification_depth_counterexample:
  "1 \<le> max_depth \<lparr>belief_id = ''landmark-1'', max_depth = 1\<rparr>
   \<and> fst (get_justification quiet_env \<lparr>belief_id = ''landmark-1'', max_depth = 1\<rparr> fresh_world)
     = Inr \<lparr>justification_tree =
              json_dumps (justification \<lparr>belief_id = ''landmark-1'', max_depth = 1\<rparr>),
            jr_success = True, jr_message = ''Justification retrieved successfully''\<rparr>
   \<and> json_get (json_loads
        (json_dumps (justification \<lparr>belief_id = ''landmark-1'', max_depth = 1\<rparr>))) ''depth''
       = Some (JInt 2)
   \<and> \<not> (2 \<le> max_depth \<lparr>belief_id = ''landmark-1'', max_depth = 1\<rparr>)"
  by (simp add: get_justification_def connect_def io_defs sample_defs justification_def
      json_dumps_def)

text \<open>
  C8, amended. When \<open>get_justification\<close> succeeds, the declared depth of the payload is
  2 whatever \<open>max_depth\<close> is; it is therefore at most \<open>max_depth\<close> for every query with
  \<open>max_depth \<ge> 2\<close>.
\<close>

theorem justification_depth_is_two:
  "fst (get_justification env query w) = Inr response \<Longrightarrow> jr_success response
   \<Longrightarrow> json_get (json_loads (justification_tree response)) ''depth'' = Some (JInt 2)
       \<and> (2 \<le> max_depth query \<longrightarrow>
           (\<exists>d. json_get (json_loads (justification_tree response)) ''depth'' = Some (JInt d)
                \<and> d \<le> max_depth query))"
  by (auto simp: get_justification_def connect_def io_defs justification_def json_dumps_def
      split: option.splits if_splits)

theorem justification_depth_is_two_witness:
  "fst (get_justification quiet_env \<lparr>belief_id = ''landmark-1'', max_depth = 5\<rparr> fresh_world)
     = Inr \<lparr>justification_tree =
              json_dumps (justification \<lparr>belief_id = ''landmark-1'', max_depth = 5\<rparr>),
            jr_success = True, jr_message = ''Justification retrieved successfully''\<rparr>
   \<and> json_get (justification \<lparr>belief_id = ''landmark-1'', max_depth = 5\<rparr>) ''depth''
       = Some (JInt 2)
   \<and> (2::int) \<le> max_depth \<lparr>belief_id = ''landmark-1'', max_depth = 5\<rparr>"
proof -
  let ?q = "\<lparr>belief_id = ''landmark-1'', max_depth = 5\<rparr>"
  let ?r = "\<lparr>justification_tree = json_dumps (justification ?q), jr_success = True,
             jr_message = ''Justification retrieved successfully''\<rparr>"
  have run: "fst (get_justification quiet_env ?q fresh_world) = Inr ?r"
    by (simp add: get_justification_def connect_def io_defs sample_defs)
  have ok: "jr_success ?r" by simp
  from justification_depth_is_two [OF run ok] run show ?thesis
    by (simp add: json_dumps_def)
qed

subsection \<open>Dispatch on the type of the observation\<close>

text \<open>
  C3. For every value that is none of the four observation classes, \<open>send_observation\<close>
  raises to its caller (a \<open>ValueError\<close> that names the unsupported type; nothing is
  folded into a response) and leaves the world as it was: no \<open>connect\<close>, no awaited
  request, and the client untouched.
\<close>

theorem send_observation_unsupported:
  "send_observation env (Other_object ty) w
     = (Inl (ValueError (''Unsupported observation type: '' @ repr_type ty)), w)"
  by (simp add: raise_io_def)

end
